theory Spec2Isabelle
  imports Main "HOL-Library.Word" "HOL-Library.Monad_Syntax"
begin

unbundle bit_operations_syntax

section \<open>Memory\<close>

text \<open>
  The allocator of \<^verbatim>\<open>mm.c\<close> works on raw memory through \<^verbatim>\<open>size_t *\<close> pointers.
  Addresses and \<^verbatim>\<open>size_t\<close> values are 64-bit words; all arithmetic on them wraps
  around, as in C. Memory is a map from byte addresses to bytes; an 8-byte word is read
  and written in little-endian order.
\<close>

type_synonym size_t = "64 word"
type_synonym blk_ptr = "64 word"
type_synonym memory = "64 word \<Rightarrow> 8 word"

definition byte_at :: "64 word \<Rightarrow> nat \<Rightarrow> 8 word" where
  "byte_at v i = ucast (drop_bit (8 * i) v)"

primrec load_bytes :: "memory \<Rightarrow> blk_ptr \<Rightarrow> nat \<Rightarrow> 64 word" where
  "load_bytes m a 0 = 0"
| "load_bytes m a (Suc n) = load_bytes m a n OR push_bit (8 * n) (ucast (m (a + of_nat n)))"

definition load :: "memory \<Rightarrow> blk_ptr \<Rightarrow> 64 word" where
  "load m a = load_bytes m a 8"

definition store :: "memory \<Rightarrow> blk_ptr \<Rightarrow> 64 word \<Rightarrow> memory" where
  "store m a v = (\<lambda>x. if x - a < 8 then byte_at v (unat (x - a)) else m x)"

text \<open>
  The state of the program: the memory, the two globals of \<^verbatim>\<open>mm.c\<close>
  (\<^verbatim>\<open>seg_list\<close>, an array of \<^verbatim>\<open>SEG_LIST_SIZE\<close> list heads, and \<^verbatim>\<open>heap_list_ptr\<close>),
  and the three pointers of the arena-growth provider.

  Modelled from the spec: the arena-growth provider (\<^verbatim>\<open>mem_sbrk\<close>, \<^verbatim>\<open>mem_heap_lo\<close>,
  \<^verbatim>\<open>mem_heap_hi\<close> of \<^verbatim>\<open>memlib\<close>) is not part of the source. The spec describes it as
  one capability \<open>Grow(extraBytes)\<close> that returns the previous end of the arena or reports
  exhaustion, never shrinks the arena, and exposes the current low and high bounds of the
  arena. Here the provider owns the bytes from \<open>mem_start_brk\<close> up to \<open>mem_max_addr\<close>;
  the arena is the part below \<open>mem_brk\<close>; a request that would move \<open>mem_brk\<close> past
  \<open>mem_max_addr\<close> reports exhaustion with the value \<^verbatim>\<open>(void *)-1\<close> that
  \<^verbatim>\<open>extend_heap\<close> tests for.
\<close>

record heap =
  mem :: memory
  seg_list :: "blk_ptr list"
  heap_list_ptr :: blk_ptr
  mem_start_brk :: blk_ptr
  mem_brk :: blk_ptr
  mem_max_addr :: blk_ptr

definition mem_sbrk :: "heap \<Rightarrow> size_t \<Rightarrow> blk_ptr \<times> heap" where
  "mem_sbrk h incr =
     (if unat (mem_brk h) + unat incr > unat (mem_max_addr h) then (- 1, h)
      else (mem_brk h, h\<lparr>mem_brk := mem_brk h + incr\<rparr>))"

definition mem_heap_lo :: "heap \<Rightarrow> blk_ptr" where
  "mem_heap_lo h = mem_start_brk h"

definition mem_heap_hi :: "heap \<Rightarrow> blk_ptr" where
  "mem_heap_hi h = mem_brk h - 1"

text \<open>
  A word access through a pointer that does not lie inside the provider's memory is a
  fault (the C program has no defined behaviour there; a null pointer is the typical
  case). Faults are the value \<open>None\<close>; every function that touches memory returns an
  option.
\<close>

definition in_store :: "heap \<Rightarrow> blk_ptr \<Rightarrow> bool" where
  "in_store h bp \<longleftrightarrow>
     unat (mem_start_brk h) \<le> unat bp \<and> unat bp + 8 \<le> unat (mem_max_addr h)"

section \<open>Constants and helpers of mm.c\<close>

definition ALIGNMENT :: size_t where [simp]: "ALIGNMENT = 16"
definition HEADER_SIZE :: size_t where [simp]: "HEADER_SIZE = 8"
definition FOOTER_SIZE :: size_t where [simp]: "FOOTER_SIZE = 8"
definition MIN_BLOCK_SIZE :: size_t where [simp]: "MIN_BLOCK_SIZE = 32"
definition EXTEND_SIZE :: size_t where [simp]: "EXTEND_SIZE = 4096"
definition SEG_LIST_SIZE :: nat where [simp]: "SEG_LIST_SIZE = 14"

definition align :: "size_t \<Rightarrow> size_t" where
  "align x = ALIGNMENT * ((x + ALIGNMENT - 1) div ALIGNMENT)"

definition max_sz :: "size_t \<Rightarrow> size_t \<Rightarrow> size_t" where
  "max_sz x y = (if x > y then x else y)"

definition min_sz :: "size_t \<Rightarrow> size_t \<Rightarrow> size_t" where
  "min_sz x y = (if x < y then x else y)"

text \<open>\<^verbatim>\<open>pack(size_t size, int alloc)\<close>: the \<^verbatim>\<open>int\<close> is converted to \<^verbatim>\<open>size_t\<close>
  (sign extension) before the bitwise or.\<close>

definition pack :: "size_t \<Rightarrow> 32 word \<Rightarrow> size_t" where
  "pack sz alloc = sz OR scast alloc"

definition get :: "heap \<Rightarrow> blk_ptr \<Rightarrow> size_t option" where
  "get h bp = (if in_store h bp then Some (load (mem h) bp) else None)"

definition put :: "heap \<Rightarrow> blk_ptr \<Rightarrow> size_t \<Rightarrow> heap option" where
  "put h bp val = (if in_store h bp then Some (h\<lparr>mem := store (mem h) bp val\<rparr>) else None)"

definition putptr :: "heap \<Rightarrow> blk_ptr \<Rightarrow> blk_ptr \<Rightarrow> heap option" where
  "putptr h bp ptr = (if in_store h bp then Some (h\<lparr>mem := store (mem h) bp ptr\<rparr>) else None)"

text \<open>\<^verbatim>\<open>~(0xf)\<close> is the \<^verbatim>\<open>int\<close> \<open>-16\<close>, which converts to the 64-bit mask
  \<open>NOT 15\<close>.\<close>

definition get_size :: "heap \<Rightarrow> blk_ptr \<Rightarrow> size_t option" where
  "get_size h bp = do { w \<leftarrow> get h bp; Some (w AND NOT 15) }"

definition get_alloc :: "heap \<Rightarrow> blk_ptr \<Rightarrow> size_t option" where
  "get_alloc h bp = do { w \<leftarrow> get h bp; Some (w AND 1) }"

definition p_to_header :: "blk_ptr \<Rightarrow> blk_ptr" where
  "p_to_header bp = bp - 8"

definition p_to_footer :: "heap \<Rightarrow> blk_ptr \<Rightarrow> blk_ptr option" where
  "p_to_footer h bp = do { sz \<leftarrow> get_size h (p_to_header bp); Some (bp + sz - 16) }"

definition prev_bp :: "heap \<Rightarrow> blk_ptr \<Rightarrow> blk_ptr option" where
  "prev_bp h bp = do { sz \<leftarrow> get_size h (bp - 16); Some (bp - sz) }"

definition next_bp :: "heap \<Rightarrow> blk_ptr \<Rightarrow> blk_ptr option" where
  "next_bp h bp = do { sz \<leftarrow> get_size h (p_to_header bp); Some (bp + sz) }"

definition prev_freebp :: "blk_ptr \<Rightarrow> blk_ptr" where
  "prev_freebp bp = bp"

definition next_freebp :: "blk_ptr \<Rightarrow> blk_ptr" where
  "next_freebp bp = bp + 8"

definition prev_listbp :: "heap \<Rightarrow> blk_ptr \<Rightarrow> blk_ptr option" where
  "prev_listbp h bp = get h bp"

definition next_listbp :: "heap \<Rightarrow> blk_ptr \<Rightarrow> blk_ptr option" where
  "next_listbp h bp = get h (next_freebp bp)"

section \<open>The segregated free lists\<close>

text \<open>The result is an \<^verbatim>\<open>int\<close> between 0 and 13 in the source; it is only used as an
  index into \<^verbatim>\<open>seg_list\<close>, so it is a natural number here.\<close>

definition search_seg_list :: "size_t \<Rightarrow> nat" where
  "search_seg_list sz =
     (if sz < 32 then 0
      else if sz \<ge> 32 \<and> sz < 64 then 1
      else if sz \<ge> 64 \<and> sz < 128 then 2
      else if sz \<ge> 128 \<and> sz < 256 then 3
      else if sz \<ge> 256 \<and> sz < 512 then 4
      else if sz \<ge> 512 \<and> sz < 1024 then 5
      else if sz \<ge> 1024 \<and> sz < 2048 then 6
      else if sz \<ge> 2048 \<and> sz < 4096 then 7
      else if sz \<ge> 4096 \<and> sz < 8192 then 8
      else if sz \<ge> 8192 \<and> sz < 16384 then 9
      else if sz \<ge> 16384 \<and> sz < 32768 then 10
      else if sz \<ge> 32768 \<and> sz < 65536 then 11
      else if sz \<ge> 65536 \<and> sz < 131072 then 12
      else 13)"

definition delete_list_blcok :: "heap \<Rightarrow> blk_ptr \<Rightarrow> heap option" where
  "delete_list_blcok h bp = do {
     sz \<leftarrow> get_size h (p_to_header bp);
     let seg_index = search_seg_list sz;
     prv \<leftarrow> prev_listbp h bp;
     if prv = 0 then do {
       nxt \<leftarrow> next_listbp h bp;
       if nxt \<noteq> 0 then do {
         h1 \<leftarrow> putptr h (prev_freebp nxt) 0;
         nxt1 \<leftarrow> next_listbp h1 bp;
         Some (h1\<lparr>seg_list := (seg_list h1)[seg_index := nxt1]\<rparr>)
       } else
         Some (h\<lparr>seg_list := (seg_list h)[seg_index := 0]\<rparr>)
     } else do {
       nxt \<leftarrow> next_listbp h bp;
       if nxt \<noteq> 0 then do {
         h1 \<leftarrow> putptr h (prev_freebp nxt) prv;
         prv1 \<leftarrow> prev_listbp h1 bp;
         nxt1 \<leftarrow> next_listbp h1 bp;
         putptr h1 (next_freebp prv1) nxt1
       } else
         putptr h (next_freebp prv) 0
     }
   }"

definition add_list_block :: "heap \<Rightarrow> blk_ptr \<Rightarrow> size_t \<Rightarrow> heap option" where
  "add_list_block h bp sz =
     (let seg_index = search_seg_list sz;
          curr_head_ptr = seg_list h ! seg_index;
          h0 = h\<lparr>seg_list := (seg_list h)[seg_index := bp]\<rparr>
      in if curr_head_ptr \<noteq> 0 then do {
           h1 \<leftarrow> putptr h0 (prev_freebp bp) 0;
           h2 \<leftarrow> putptr h1 (next_freebp bp) curr_head_ptr;
           putptr h2 (prev_freebp curr_head_ptr) bp
         } else do {
           h1 \<leftarrow> putptr h0 (prev_freebp bp) 0;
           putptr h1 (next_freebp bp) 0
         })"

section \<open>Coalescing, growth and placement\<close>

text \<open>Every pointer expression of the source is evaluated in the state in which the
  source evaluates it: \<^verbatim>\<open>prev_bp(bp)\<close> and \<^verbatim>\<open>next_bp(bp)\<close> read memory, so they are
  read again after each write.\<close>

definition coalesce :: "heap \<Rightarrow> blk_ptr \<Rightarrow> (blk_ptr \<times> heap) option" where
  "coalesce h bp = do {
     pb \<leftarrow> prev_bp h bp;
     prev_alloc \<leftarrow> get_alloc h (p_to_header pb);
     nb \<leftarrow> next_bp h bp;
     next_alloc \<leftarrow> get_alloc h (p_to_header nb);
     sz \<leftarrow> get_size h (p_to_header bp);
     if prev_alloc \<noteq> 0 \<and> next_alloc \<noteq> 0 then Some (bp, h)
     else do {
       (bp', sz', h') \<leftarrow>
         (if prev_alloc = 0 \<and> next_alloc \<noteq> 0 then do {
            psz \<leftarrow> get_size h (p_to_header pb);
            let sz = sz + psz;
            h1 \<leftarrow> delete_list_blcok h bp;
            pb1 \<leftarrow> prev_bp h1 bp;
            h2 \<leftarrow> delete_list_blcok h1 pb1;
            ft \<leftarrow> p_to_footer h2 bp;
            h3 \<leftarrow> put h2 ft (pack sz 0);
            pb3 \<leftarrow> prev_bp h3 bp;
            h4 \<leftarrow> put h3 (p_to_header pb3) (pack sz 0);
            pb4 \<leftarrow> prev_bp h4 bp;
            Some (pb4, sz, h4)
          } else if prev_alloc \<noteq> 0 \<and> next_alloc = 0 then do {
            nsz \<leftarrow> get_size h (p_to_header nb);
            let sz = sz + nsz;
            h1 \<leftarrow> delete_list_blcok h bp;
            nb1 \<leftarrow> next_bp h1 bp;
            h2 \<leftarrow> delete_list_blcok h1 nb1;
            h3 \<leftarrow> put h2 (p_to_header bp) (pack sz 0);
            ft \<leftarrow> p_to_footer h3 bp;
            h4 \<leftarrow> put h3 ft (pack sz 0);
            Some (bp, sz, h4)
          } else do {
            nft \<leftarrow> p_to_footer h nb;
            nsz \<leftarrow> get_size h nft;
            psz \<leftarrow> get_size h (p_to_header pb);
            let sz = sz + (nsz + psz);
            h1 \<leftarrow> delete_list_blcok h bp;
            nb1 \<leftarrow> next_bp h1 bp;
            h2 \<leftarrow> delete_list_blcok h1 nb1;
            pb2 \<leftarrow> prev_bp h2 bp;
            h3 \<leftarrow> delete_list_blcok h2 pb2;
            nb3 \<leftarrow> next_bp h3 bp;
            ft \<leftarrow> p_to_footer h3 nb3;
            h4 \<leftarrow> put h3 ft (pack sz 0);
            pb4 \<leftarrow> prev_bp h4 bp;
            h5 \<leftarrow> put h4 (p_to_header pb4) (pack sz 0);
            pb5 \<leftarrow> prev_bp h5 bp;
            Some (pb5, sz, h5)
          });
       h'' \<leftarrow> add_list_block h' bp' sz';
       Some (bp', h'')
     }
   }"

definition extend_heap :: "heap \<Rightarrow> size_t \<Rightarrow> (blk_ptr \<times> heap) option" where
  "extend_heap h wsize =
     (let asize = align wsize;
          (bp, h0) = mem_sbrk h asize
      in if bp = - 1 then Some (0, h0)
         else do {
           h1 \<leftarrow> add_list_block h0 bp asize;
           h2 \<leftarrow> put h1 (p_to_header bp) (pack asize 0);
           ft \<leftarrow> p_to_footer h2 bp;
           h3 \<leftarrow> put h2 ft (pack asize 0);
           nb \<leftarrow> next_bp h3 bp;
           h4 \<leftarrow> put h3 (p_to_header nb) (pack 0 1);
           coalesce h4 bp
         })"

text \<open>
  \<^verbatim>\<open>place\<close> declares the local \<^verbatim>\<open>next_block\<close> without an initial value, assigns it only
  in the splitting branch and reads it only in the other branch. What the read yields is
  not determined by the program; it is the argument \<open>next_block\<close> of the model.
\<close>

definition place :: "heap \<Rightarrow> blk_ptr \<Rightarrow> size_t \<Rightarrow> blk_ptr \<Rightarrow> (blk_ptr \<times> heap) option" where
  "place h bp asize next_block = do {
     h0 \<leftarrow> delete_list_blcok h bp;
     csize \<leftarrow> get_size h0 (p_to_header bp);
     if csize - asize \<ge> MIN_BLOCK_SIZE then do {
       h1 \<leftarrow> put h0 (p_to_header bp) (pack asize 1);
       ft \<leftarrow> p_to_footer h1 bp;
       h2 \<leftarrow> put h1 ft (pack asize 1);
       nb2 \<leftarrow> next_bp h2 bp;
       h3 \<leftarrow> put h2 (p_to_header nb2) (pack (csize - asize) 0);
       nb3 \<leftarrow> next_bp h3 bp;
       ft3 \<leftarrow> p_to_footer h3 nb3;
       h4 \<leftarrow> put h3 ft3 (pack (csize - asize) 0);
       nb4 \<leftarrow> next_bp h4 bp;
       h5 \<leftarrow> add_list_block h4 nb4 (csize - asize);
       Some (bp, h5)
     } else do {
       h1 \<leftarrow> put h0 (p_to_header bp) (pack csize 1);
       ft \<leftarrow> p_to_footer h1 bp;
       h2 \<leftarrow> put h1 ft (pack csize 1);
       a \<leftarrow> get_alloc h2 (p_to_header next_block);
       if a = 0 then do {
         nft \<leftarrow> p_to_footer h2 next_block;
         w \<leftarrow> get h2 (p_to_header next_block);
         h3 \<leftarrow> put h2 nft w;
         Some (bp, h3)
       } else Some (bp, h2)
     }
   }"

section \<open>The allocator interface\<close>

definition mm_init :: "heap \<Rightarrow> (bool \<times> heap) option" where
  "mm_init h =
     (let h0 = h\<lparr>seg_list := replicate SEG_LIST_SIZE 0\<rparr>;
          (p, h1) = mem_sbrk h0 MIN_BLOCK_SIZE;
          h2 = h1\<lparr>heap_list_ptr := p\<rparr>
      in if p = 0 then Some (False, h2)
         else do {
           h3 \<leftarrow> put h2 (heap_list_ptr h2) 0;
           h4 \<leftarrow> put h3 (heap_list_ptr h3 + HEADER_SIZE) (pack (2 * HEADER_SIZE) 1);
           h5 \<leftarrow> put h4 (heap_list_ptr h4 + 2 * FOOTER_SIZE) (pack (2 * FOOTER_SIZE) 1);
           (bp, h6) \<leftarrow> extend_heap h5 EXTEND_SIZE;
           if bp = 0 then Some (False, h6) else Some (True, h6)
         })"

text \<open>The \<^verbatim>\<open>for\<close> loop of \<^verbatim>\<open>malloc\<close>, by the number of iterations that remain
  (\<^verbatim>\<open>MIN_BLOCK_SIZE\<close>, that is 32, at the start). The result is the block at which the loop
  calls \<^verbatim>\<open>place\<close> and returns, or \<open>None\<close> when the loop ends without one.\<close>

fun scan_class :: "nat \<Rightarrow> heap \<Rightarrow> blk_ptr \<Rightarrow> size_t \<Rightarrow> blk_ptr option option" where
  "scan_class 0 h bp asize = Some None"
| "scan_class (Suc n) h bp asize =
     (if bp = 0 then Some None
      else do {
        sz \<leftarrow> get_size h (p_to_header bp);
        if asize \<le> sz then Some (Some bp)
        else do {
          nxt \<leftarrow> next_listbp h bp;
          scan_class n h nxt asize
        }
      })"

text \<open>The \<^verbatim>\<open>while\<close> loop of \<^verbatim>\<open>malloc\<close>.\<close>

function next_class :: "blk_ptr list \<Rightarrow> nat \<Rightarrow> blk_ptr \<Rightarrow> blk_ptr" where
  "next_class sl seg_index bp =
     (if seg_index < SEG_LIST_SIZE \<and> bp = 0
      then next_class sl (Suc seg_index) (sl ! seg_index)
      else bp)"
  by pat_completeness auto
termination
  by (relation "measure (\<lambda>(sl, seg_index, bp). SEG_LIST_SIZE - seg_index)") auto

declare next_class.simps [simp del]

definition malloc :: "heap \<Rightarrow> size_t \<Rightarrow> blk_ptr \<Rightarrow> (blk_ptr \<times> heap) option" where
  "malloc h nbytes next_block =
     (if nbytes = 0 then Some (0, h)
      else
        let asize = (if nbytes \<le> HEADER_SIZE * 2 then MIN_BLOCK_SIZE
                     else align (nbytes + HEADER_SIZE * 2));
            seg_index = search_seg_list asize;
            extendsize = max_sz asize EXTEND_SIZE
        in do {
          found \<leftarrow> (if seg_index \<noteq> SEG_LIST_SIZE \<and> seg_list h ! seg_index \<noteq> 0
                    then scan_class 32 h (seg_list h ! seg_index) asize
                    else Some None);
          case found of
            Some bp \<Rightarrow> do {
              (r, h') \<leftarrow> place h bp asize next_block;
              Some (bp, h')
            }
          | None \<Rightarrow> do {
              (bp, h1) \<leftarrow> (let bp = next_class (seg_list h) (Suc seg_index) 0
                           in if bp = 0 then extend_heap h extendsize else Some (bp, h));
              place h1 bp asize next_block
            }
        })"

definition free :: "heap \<Rightarrow> blk_ptr \<Rightarrow> heap option" where
  "free h ptr =
     (if ptr = 0 then Some h
      else do {
        sz \<leftarrow> get h (p_to_header ptr);
        h1 \<leftarrow> put h (p_to_header ptr) (pack sz 0);
        ft \<leftarrow> p_to_footer h1 ptr;
        h2 \<leftarrow> put h1 ft (pack sz 0);
        h3 \<leftarrow> add_list_block h2 ptr sz;
        (r, h4) \<leftarrow> coalesce h3 ptr;
        Some h4
      })"

text \<open>\<^verbatim>\<open>memmove\<close> of the C library: \<open>n\<close> bytes from \<open>src\<close> to \<open>dst\<close>, read before
  any is written; both ranges must lie in the provider's memory.\<close>

definition range_in_store :: "heap \<Rightarrow> blk_ptr \<Rightarrow> size_t \<Rightarrow> bool" where
  "range_in_store h p n \<longleftrightarrow>
     unat (mem_start_brk h) \<le> unat p \<and> unat p + unat n \<le> unat (mem_max_addr h)"

definition copy_bytes :: "memory \<Rightarrow> blk_ptr \<Rightarrow> blk_ptr \<Rightarrow> size_t \<Rightarrow> memory" where
  "copy_bytes m dst src n = (\<lambda>x. if x - dst < n then m (src + (x - dst)) else m x)"

definition memmove :: "heap \<Rightarrow> blk_ptr \<Rightarrow> blk_ptr \<Rightarrow> size_t \<Rightarrow> heap option" where
  "memmove h dst src n =
     (if n = 0 then Some h
      else if range_in_store h dst n \<and> range_in_store h src n
      then Some (h\<lparr>mem := copy_bytes (mem h) dst src n\<rparr>)
      else None)"

definition realloc :: "heap \<Rightarrow> blk_ptr \<Rightarrow> size_t \<Rightarrow> blk_ptr \<Rightarrow> (blk_ptr \<times> heap) option" where
  "realloc h oldptr nbytes next_block =
     (if oldptr = 0 then malloc h nbytes next_block
      else if nbytes = 0 then do { h' \<leftarrow> free h oldptr; Some (0, h') }
      else do {
        (newptr, h1) \<leftarrow> malloc h nbytes next_block;
        osz \<leftarrow> get_size h1 (p_to_header oldptr);
        let copysize = min_sz nbytes (osz - HEADER_SIZE);
        h2 \<leftarrow> memmove h1 newptr oldptr copysize;
        h3 \<leftarrow> free h2 oldptr;
        Some (newptr, h3)
      })"

definition in_heap :: "heap \<Rightarrow> blk_ptr \<Rightarrow> bool" where
  "in_heap h p \<longleftrightarrow> p \<le> mem_heap_hi h \<and> p \<ge> mem_heap_lo h"

definition aligned :: "blk_ptr \<Rightarrow> bool" where
  "aligned p \<longleftrightarrow> align p = p"

section \<open>The placement search as the spec words it\<close>

text \<open>
  The block size that \<^verbatim>\<open>malloc\<close> computes from a request (\<open>asize\<close> in the source).
\<close>

definition request_size :: "size_t \<Rightarrow> size_t" where
  "request_size nbytes =
     (if nbytes \<le> HEADER_SIZE * 2 then MIN_BLOCK_SIZE else align (nbytes + HEADER_SIZE * 2))"

text \<open>
  The first \<open>n\<close> blocks of a class list, from its head along the next-in-list links,
  up to a null link.
\<close>

fun class_blocks :: "nat \<Rightarrow> heap \<Rightarrow> blk_ptr \<Rightarrow> blk_ptr list" where
  "class_blocks 0 h bp = []"
| "class_blocks (Suc n) h bp =
     (if bp = 0 then []
      else bp # (case next_listbp h bp of None \<Rightarrow> [] | Some nxt \<Rightarrow> class_blocks n h nxt))"

definition fits :: "heap \<Rightarrow> size_t \<Rightarrow> blk_ptr \<Rightarrow> bool" where
  "fits h asize bp =
     (case get_size h (p_to_header bp) of None \<Rightarrow> False | Some sz \<Rightarrow> asize \<le> sz)"

text \<open>
  Steps 2 and 3 of the spec's placement search: the first block of size at least \<open>asize\<close>
  among the first 32 blocks of the list of class \<open>classOf(asize)\<close>; failing that, the
  head of the first non-empty class with a greater index; \<open>None\<close> when there is neither,
  which is when the spec asks for arena growth.
\<close>

definition placement_search :: "heap \<Rightarrow> size_t \<Rightarrow> blk_ptr option" where
  "placement_search h asize =
     (let k = search_seg_list asize
      in case find (fits h asize) (class_blocks 32 h (seg_list h ! k)) of
           Some bp \<Rightarrow> Some bp
         | None \<Rightarrow>
             (case find (\<lambda>i. seg_list h ! i \<noteq> 0) [Suc k ..< SEG_LIST_SIZE] of
                Some i \<Rightarrow> Some (seg_list h ! i)
              | None \<Rightarrow> None))"

text \<open>The header and the next-in-list link of each of those 32 blocks can be read.\<close>

definition readable_class :: "heap \<Rightarrow> size_t \<Rightarrow> bool" where
  "readable_class h asize \<longleftrightarrow>
     (\<forall>b \<in> set (class_blocks 32 h (seg_list h ! search_seg_list asize)).
        in_store h (p_to_header b) \<and> in_store h (next_freebp b))"

section \<open>Concrete heaps\<close>

text \<open>A provider with 0xF0000 bytes of memory starting at address 0x10000, all zero,
  before \<^verbatim>\<open>mm_init\<close>; and one whose memory ends exactly where the arena ends after
  \<^verbatim>\<open>mm_init\<close>, so that every later growth request reports exhaustion.\<close>

definition boot :: heap where
  "boot = \<lparr>mem = (\<lambda>_. 0), seg_list = replicate 14 0, heap_list_ptr = 0,
           mem_start_brk = 0x10000, mem_brk = 0x10000, mem_max_addr = 0x100000\<rparr>"

definition boot_small :: heap where
  "boot_small = \<lparr>mem = (\<lambda>_. 0), seg_list = replicate 14 0, heap_list_ptr = 0,
           mem_start_brk = 0x10000, mem_brk = 0x10000, mem_max_addr = 0x11020\<rparr>"

text \<open>The heaps that \<^verbatim>\<open>mm_init\<close> builds from them.\<close>

definition heap_after_init :: heap where
  "heap_after_init = (case mm_init boot of Some (ok, h) \<Rightarrow> h | None \<Rightarrow> boot)"

definition small_heap_after_init :: heap where
  "small_heap_after_init =
     (case mm_init boot_small of Some (ok, h) \<Rightarrow> h | None \<Rightarrow> boot_small)"

section \<open>Reading and writing words\<close>

lemma bit_load_bytes:
  "bit (load_bytes m a n) k \<longleftrightarrow> k < 8 * n \<and> k < 64 \<and> bit (m (a + of_nat (k div 8))) (k mod 8)"
proof (induction n)
  case 0
  then show ?case by simp
next
  case (Suc n)
  show ?case
  proof (cases "k div 8 = n")
    case True
    then have "8 * n \<le> k" "k < 8 * Suc n" "k mod 8 = k - 8 * n"
      by (auto simp add: minus_mult_div_eq_mod [symmetric] mult.commute)
    with True show ?thesis
      by (auto simp add: Suc bit_simps)
  next
    case False
    then have "\<not> (8 * n \<le> k \<and> k < 8 * Suc n)" by auto
    with False show ?thesis
      by (auto simp add: Suc bit_simps dest: bit_imp_le_length)
  qed
qed

lemma store_byte: "k < 8 \<Longrightarrow> store m a v (a + of_nat k) = byte_at v k"
  by (simp add: store_def unat_of_nat word_less_nat_alt)

lemma load_store_same: "load (store m a v) a = v"
proof (rule bit_eqI)
  fix k assume "possible_bit TYPE(64 word) k"
  then have k: "k < 64" by simp
  then have "k div 8 < 8" by auto
  then show "bit (load (store m a v) a) k = bit v k"
    using k by (simp add: load_def bit_load_bytes store_byte byte_at_def bit_simps)
qed

lemma load_bytes_cong:
  "(\<And>i. i < n \<Longrightarrow> m (a + of_nat i) = m' (b + of_nat i)) \<Longrightarrow> load_bytes m a n = load_bytes m' b n"
  by (induction n) auto

lemma far_apart:
  fixes d :: "64 word"
  assumes "8 \<le> d" "8 \<le> - d" "i < 8"
  shows "\<not> d + of_nat i < 8"
proof -
  have d0: "d \<noteq> 0" using assms(1) by auto
  have "unat (0 - d) = 2 ^ 64 - unat d"
    using d0 by (simp add: unat_sub_if_size word_size unat_eq_0 del: diff_0)
  then have "unat (- d) = 2 ^ 64 - unat d" by simp
  moreover have "8 \<le> unat (- d)" using assms(2) by (simp add: word_le_nat_alt)
  moreover have "8 \<le> unat d" using assms(1) by (simp add: word_le_nat_alt)
  moreover have "unat d < 2 ^ 64" using unsigned_less [of d, where ?'a = nat] by simp
  ultimately have "unat d + i < 2 ^ 64" "8 \<le> unat d + i" using assms(3) by auto
  then have "unat (d + of_nat i) = unat d + i"
    using assms(3) by (simp add: unat_word_ariths unat_of_nat)
  with \<open>8 \<le> unat d + i\<close> show ?thesis by (simp add: word_less_nat_alt)
qed

lemma load_store_other:
  assumes "8 \<le> b - a" "8 \<le> a - b"
  shows "load (store m a v) b = load m b"
proof -
  have "store m a v (b + of_nat i) = m (b + of_nat i)" if "i < 8" for i
  proof -
    have eq: "(b - a) + of_nat i = b + of_nat i - a" by simp
    have "\<not> (b - a) + of_nat i < 8"
      using far_apart [of "b - a" i] assms that by simp
    then have "\<not> b + of_nat i - a < 8" unfolding eq .
    then show ?thesis by (simp add: store_def)
  qed
  then show ?thesis unfolding load_def by (intro load_bytes_cong) simp
qed

lemma mask7: "(x::64 word) AND 7 = 0 \<longleftrightarrow> 8 dvd uint x"
  using and_mask_dvd [of 3 x] by (simp add: mask_eq_exp_minus_1)

lemma aligned_far:
  fixes d :: "64 word"
  assumes "d AND 7 = 0" "d \<noteq> 0"
  shows "8 \<le> d"
proof (rule ccontr)
  assume "\<not> 8 \<le> d"
  then have "d < 2 ^ 3" by simp
  then have "d AND mask 3 = d" by (rule less_mask_eq)
  then have "d AND 7 = d" by (simp add: mask_eq_exp_minus_1)
  then show False using assms by simp
qed

lemma aligned_diff:
  fixes a b :: "64 word"
  assumes "a AND 7 = 0" "b AND 7 = 0"
  shows "(b - a) AND 7 = 0"
proof -
  have "8 dvd uint b - uint a" using assms by (simp add: mask7)
  moreover have "(8::int) dvd 2 ^ 64" by simp
  ultimately have "8 dvd (uint b - uint a) mod 2 ^ 64" by (simp only: dvd_mod_iff)
  then show ?thesis by (simp add: mask7 uint_word_ariths)
qed

lemma load_store_aligned:
  assumes "a AND 7 = 0" "b AND 7 = 0" "a \<noteq> b"
  shows "load (store m a v) b = load m b"
proof (rule load_store_other)
  show "8 \<le> b - a" using aligned_far [OF aligned_diff [OF assms(1,2)]] assms(3) by simp
  show "8 \<le> a - b" using aligned_far [OF aligned_diff [OF assms(2,1)]] assms(3) by simp
qed

lemma unat_numeral_small:
  assumes "numeral k < (18446744073709551616::nat)"
  shows "unat (numeral k :: 64 word) = numeral k"
proof -
  have p: "(2::nat) ^ 64 = 18446744073709551616" by simp
  have "unat (numeral k :: 64 word) = numeral k mod 2 ^ 64"
    by (simp only: unat_numeral len_bit0 len_num1  mult_numeral_left_semiring_numeral mult_1_right numeral_times_numeral  semiring_norm)
  also have "\<dots> = numeral k" using assms unfolding p by (rule mod_less)
  finally show ?thesis .
qed

lemma search_seg_list_unat:
  "search_seg_list sz =
     (let n = unat sz in
      if n < 32 then 0 else if n < 64 then 1 else if n < 128 then 2 else if n < 256 then 3
      else if n < 512 then 4 else if n < 1024 then 5 else if n < 2048 then 6
      else if n < 4096 then 7 else if n < 8192 then 8 else if n < 16384 then 9
      else if n < 32768 then 10 else if n < 65536 then 11 else if n < 131072 then 12 else 13)"
  by (simp add: search_seg_list_def Let_def word_less_nat_alt word_le_nat_alt)

lemma no_wrap_add:
  fixes d :: "64 word"
  assumes "d \<le> d + 7" "i < 8"
  shows "unat (d + of_nat i) = unat d + i"
proof -
  have "unat (d + 7) = unat d + 7"
    using assms(1) by (simp add: unat_plus_simple)
  moreover have "unat (d + 7) < 2 ^ 64" using unsigned_less [of "d + 7", where ?'a = nat] by simp
  ultimately have "unat d + i < 2 ^ 64" using assms(2) by simp
  then show ?thesis using assms(2) by (simp add: unat_word_ariths unat_of_nat)
qed

lemma load_copy_inside:
  assumes "a - dst \<le> a - dst + 7" "a - dst + 7 < n"
  shows "load (copy_bytes m dst src n) a = load m (src + (a - dst))"
proof -
  have "copy_bytes m dst src n (a + of_nat i) = m (src + (a - dst) + of_nat i)" if "i < 8" for i
  proof -
    have eq: "a + of_nat i - dst = (a - dst) + of_nat i" by simp
    have "unat ((a - dst) + of_nat i) = unat (a - dst) + i"
      using no_wrap_add [OF assms(1) that] .
    moreover have "unat (a - dst + 7) = unat (a - dst) + 7"
      using assms(1) by (simp add: unat_plus_simple)
    ultimately have "(a - dst) + of_nat i < n"
      using assms(2) that by (simp add: word_less_nat_alt)
    then show ?thesis by (simp add: copy_bytes_def eq) (simp add: algebra_simps)
  qed
  then show ?thesis unfolding load_def by (intro load_bytes_cong) simp
qed

lemma load_copy_outside:
  assumes "a - dst \<le> a - dst + 7" "n \<le> a - dst"
  shows "load (copy_bytes m dst src n) a = load m a"
proof -
  have "copy_bytes m dst src n (a + of_nat i) = m (a + of_nat i)" if "i < 8" for i
  proof -
    have eq: "a + of_nat i - dst = (a - dst) + of_nat i" by simp
    have "unat ((a - dst) + of_nat i) = unat (a - dst) + i"
      using no_wrap_add [OF assms(1) that] .
    then have "\<not> (a - dst) + of_nat i < n"
      using assms(2) by (simp add: word_less_nat_alt word_le_nat_alt)
    then show ?thesis by (simp add: copy_bytes_def eq)
  qed
  then show ?thesis unfolding load_def by (intro load_bytes_cong) simp
qed

lemma load_zero: "load (\<lambda>_. 0) a = 0"
  by (simp add: load_def eval_nat_numeral)

lemma replicate14: "replicate 14 (0::64 word) = [0,0,0,0,0,0,0,0,0,0,0,0,0,0]"
  by (simp add: eval_nat_numeral)

section \<open>Evaluation on concrete heaps\<close>

lemma in_store_put: "put h bp v = Some h' \<Longrightarrow> in_store h' a = in_store h a"
  by (auto simp add: put_def in_store_def split: if_splits)

lemma scan_class_numeral:
  "scan_class (numeral k) h bp asize =
     (if bp = 0 then Some None
      else do {
        sz \<leftarrow> get_size h (p_to_header bp);
        if asize \<le> sz then Some (Some bp)
        else do {
          nxt \<leftarrow> next_listbp h bp;
          scan_class (pred_numeral k) h nxt asize
        }
      })"
  by (simp add: numeral_eq_Suc)

lemma bind_weak_cong: "m = m' \<Longrightarrow> Option.bind m f = Option.bind m' f"
  by simp

lemmas wc = bind_weak_cong prod.case_cong_weak option.case_cong_weak let_weak_cong

lemmas ev = scan_class_numeral next_class.simps load_store_same load_store_aligned load_zero replicate14
  unat_numeral_small
  mem_sbrk_def in_store_def align_def max_sz_def min_sz_def pack_def get_def put_def putptr_def
  get_size_def get_alloc_def p_to_header_def p_to_footer_def prev_bp_def next_bp_def
  prev_freebp_def next_freebp_def prev_listbp_def next_listbp_def search_seg_list_unat
  delete_list_blcok_def add_list_block_def coalesce_def extend_heap_def place_def
  mm_init_def malloc_def free_def Let_def realloc_def memmove_def range_in_store_def
  load_copy_inside load_copy_outside

lemma heap_after_init_eq:
  "heap_after_init =
     \<lparr>mem = store (store (store (store (store (store (store (store (\<lambda>_. 0)
              0x10000 0) 0x10008 17) 0x10010 17) 0x10020 0) 0x10028 0) 0x10018 4096)
              0x11010 4096) 0x11018 1,
      seg_list = [0, 0, 0, 0, 0, 0, 0, 0, 0x10020, 0, 0, 0, 0, 0],
      heap_list_ptr = 0x10000, mem_start_brk = 0x10000, mem_brk = 0x11020,
      mem_max_addr = 0x100000\<rparr>"
  by (simp add: heap_after_init_def boot_def ev cong: wc del: unat_bintrunc unsigned_numeral)

lemma small_heap_after_init_eq:
  "small_heap_after_init =
     \<lparr>mem = store (store (store (store (store (store (store (store (\<lambda>_. 0)
              0x10000 0) 0x10008 17) 0x10010 17) 0x10020 0) 0x10028 0) 0x10018 4096)
              0x11010 4096) 0x11018 1,
      seg_list = [0, 0, 0, 0, 0, 0, 0, 0, 0x10020, 0, 0, 0, 0, 0],
      heap_list_ptr = 0x10000, mem_start_brk = 0x10000, mem_brk = 0x11020,
      mem_max_addr = 0x11020\<rparr>"
  by (simp add: small_heap_after_init_def boot_small_def ev cong: wc
      del: unat_bintrunc unsigned_numeral)

lemma mm_init_boot: "mm_init boot = Some (True, heap_after_init)"
  unfolding heap_after_init_eq
  by (simp add: boot_def ev cong: wc del: unat_bintrunc unsigned_numeral)

lemma mm_init_boot_small: "mm_init boot_small = Some (True, small_heap_after_init)"
  unfolding small_heap_after_init_eq
  by (simp add: boot_small_def ev cong: wc del: unat_bintrunc unsigned_numeral)

section \<open>The boundary-tag codec\<close>

lemma unpack_size:
  fixes sz :: "64 word"
  assumes "sz AND 15 = 0" "flag = 0 \<or> flag = 1"
  shows "pack sz flag AND NOT 15 = sz"
proof -
  have "sz = sz AND (15 OR NOT 15)" by simp
  also have "\<dots> = (sz AND 15) OR (sz AND NOT 15)" by (simp only: bit.conj_disj_distrib)
  finally have "sz AND NOT 15 = sz" using assms(1) by simp
  then have sz: "sz AND - 16 = sz" by simp
  from assms(2) show ?thesis
    by (auto simp add: pack_def sz bit.conj_disj_distrib2)
qed

lemma unpack_alloc:
  fixes sz :: "64 word"
  assumes "sz AND 15 = 0" "flag = 0 \<or> flag = 1"
  shows "pack sz flag AND 1 = ucast flag"
proof -
  have "sz AND 1 = sz AND (15 AND 1)" by simp
  also have "\<dots> = (sz AND 15) AND 1" by (simp only: and.assoc)
  finally have sz: "sz AND 1 = 0" using assms(1) by simp
  from assms(2) show ?thesis
    by (auto simp add: pack_def sz bit.conj_disj_distrib2)
qed

text \<open>
  C10. Writing \<^verbatim>\<open>pack(size, flag)\<close> to a readable address and decoding it again gives back
  both components: for every size that is a multiple of 16 and every flag 0 or 1,
  \<^verbatim>\<open>get_size\<close> of the stored word is the size and \<^verbatim>\<open>get_alloc\<close> of it is the flag.
\<close>

theorem pack_roundtrip:
  assumes "in_store h bp" and "sz AND 15 = 0" and "flag = 0 \<or> flag = 1"
  shows "do { h' \<leftarrow> put h bp (pack sz flag);
              s \<leftarrow> get_size h' bp;
              a \<leftarrow> get_alloc h' bp;
              Some (s, a) } = Some (sz, ucast flag)"
proof -
  obtain h' where h': "put h bp (pack sz flag) = Some h'"
    using assms(1) by (simp add: put_def)
  then have st: "in_store h' bp" using assms(1) by (simp add: in_store_put)
  have w: "load (mem h') bp = pack sz flag"
    using h' by (auto simp add: put_def load_store_same split: if_splits)
  have gs: "get_size h' bp = Some sz"
    unfolding get_size_def get_def using st w unpack_size [OF assms(2,3)] by simp
  have ga: "get_alloc h' bp = Some (ucast flag)"
    unfolding get_alloc_def get_def using st w unpack_alloc [OF assms(2,3)] by simp
  show ?thesis
    by (simp add: h' gs ga)
qed

theorem pack_roundtrip_witness:
  "in_store boot 0x10008 \<and> (48 :: 64 word) AND 15 = 0 \<and>
   do { h' \<leftarrow> put boot 0x10008 (pack 48 1);
        s \<leftarrow> get_size h' 0x10008;
        a \<leftarrow> get_alloc h' 0x10008;
        Some (s, a) } = Some (48, 1)"
  using pack_roundtrip [of boot "0x10008" 48 1]
  by (simp add: boot_def in_store_def)

section \<open>Size classes\<close>

text \<open>
  C3, as the spec states it: class \<open>i\<close> covers the sizes from \<open>32 * 2 ^ i\<close>. It fails at
  the first size of class 0: \<^verbatim>\<open>search_seg_list(32)\<close> is not 0.
\<close>

theorem search_seg_list_32_not_class_0: "search_seg_list 32 \<noteq> 0"
  by (simp add: search_seg_list_def)

text \<open>
  C3, amended: \<^verbatim>\<open>search_seg_list\<close> returns 0 for every size below 32, \<open>i + 1\<close> for every
  \<open>i\<close> from 0 to 11 and every size from \<open>32 * 2 ^ i\<close> up to but excluding
  \<open>32 * 2 ^ (i + 1)\<close>, and 13 for every size from 131072 on.
\<close>

theorem search_seg_list_classes:
  "(unat sz < 32 \<longrightarrow> search_seg_list sz = 0) \<and>
   (i \<le> 11 \<and> 32 * 2 ^ i \<le> unat sz \<and> unat sz < 32 * 2 ^ (i + 1) \<longrightarrow> search_seg_list sz = i + 1) \<and>
   (131072 \<le> unat sz \<longrightarrow> search_seg_list sz = 13)"
proof -
  have mid: "search_seg_list sz = i + 1"
    if "i \<le> 11" and "32 * 2 ^ i \<le> unat sz" and "unat sz < 32 * 2 ^ (i + 1)"
  proof -
    have "i \<in> {..11}" using that(1) by simp
    also have "{..11} = {0, 1, 2, 3, 4, 5, 6, 7, 8, 9, 10, 11 :: nat}"
      by (auto simp add: atMost_nat_numeral atMost_Suc)
    finally show ?thesis
      using that(2,3) by (auto simp add: search_seg_list_unat Let_def)
  qed
  show ?thesis
    using mid by (simp add: search_seg_list_unat Let_def)
qed

theorem search_seg_list_classes_witness:
  "unat (10 :: 64 word) < 32 \<and> search_seg_list 10 = 0 \<and>
   (1 :: nat) \<le> 11 \<and> 32 * 2 ^ 1 \<le> unat (100 :: 64 word) \<and> unat (100 :: 64 word) < 32 * 2 ^ (1 + 1) \<and>
   search_seg_list 100 = 2 \<and>
   131072 \<le> unat (200000 :: 64 word) \<and> search_seg_list 200000 = 13"
  using search_seg_list_classes [of 10 0] search_seg_list_classes [of 100 1]
    search_seg_list_classes [of 200000 0]
  by simp

section \<open>The placement search of malloc\<close>

lemma scan_class_find:
  assumes "\<forall>b \<in> set (class_blocks n h bp). in_store h (p_to_header b) \<and> in_store h (next_freebp b)"
  shows "scan_class n h bp asize = Some (find (fits h asize) (class_blocks n h bp))"
  using assms
proof (induction n arbitrary: bp)
  case 0
  then show ?case by simp
next
  case (Suc n)
  show ?case
  proof (cases "bp = 0")
    case True
    then show ?thesis by simp
  next
    case False
    from Suc.prems False
    have hd: "in_store h (p_to_header bp)" and nx: "in_store h (next_freebp bp)"
      by simp_all
    from nx obtain nxt where nxt: "next_listbp h bp = Some nxt"
      by (simp add: next_listbp_def get_def)
    from hd obtain sz where sz: "get_size h (p_to_header bp) = Some sz"
      by (simp add: get_size_def get_def)
    have rest: "\<forall>b \<in> set (class_blocks n h nxt).
        in_store h (p_to_header b) \<and> in_store h (next_freebp b)"
      using Suc.prems False nxt by simp
    show ?thesis
      using False sz nxt Suc.IH [OF rest] by (simp add: fits_def)
  qed
qed

lemma next_class_find:
  "next_class sl j 0 =
     (case find (\<lambda>i. sl ! i \<noteq> 0) [j ..< SEG_LIST_SIZE] of Some i \<Rightarrow> sl ! i | None \<Rightarrow> 0)"
proof (induction "SEG_LIST_SIZE - j" arbitrary: j)
  case 0
  then show ?case by (simp add: next_class.simps)
next
  case (Suc d)
  then have j: "j < SEG_LIST_SIZE" and d: "d = SEG_LIST_SIZE - Suc j" by simp_all
  have up: "[j ..< 14] = j # [Suc j ..< 14]"
    using j by (simp add: upt_conv_Cons)
  show ?case
  proof (cases "sl ! j = 0")
    case True
    then show ?thesis
      using j Suc.hyps(1) [OF d] by (subst next_class.simps) (simp add: up)
  next
    case False
    then show ?thesis
      using j by (subst next_class.simps, subst next_class.simps) (simp add: up)
  qed
qed

lemma find_nonzero: "find (\<lambda>i. sl ! i \<noteq> (0::64 word)) xs = Some i \<Longrightarrow> sl ! i \<noteq> 0"
  by (induction xs) (auto split: if_splits)

lemma place_returns_bp: "place h bp asize nb = Some (r, h') \<Longrightarrow> r = bp"
  by (auto simp add: place_def split: bind_splits if_splits)

lemma search_seg_list_less: "search_seg_list sz < 14"
  by (simp add: search_seg_list_def)

lemma place_keeps_bp:
  "do { (r, h') \<leftarrow> place h bp asize nb; Some (bp, h') } = place h bp asize nb"
proof (cases "place h bp asize nb")
  case None
  then show ?thesis by simp
next
  case (Some p)
  obtain r h' where p: "p = (r, h')" by (cases p)
  with Some place_returns_bp [of h bp asize nb r h'] show ?thesis by simp
qed

lemma class_blocks_null: "class_blocks n h 0 = []"
  by (cases n) simp_all

lemma class_blocks_numeral:
  "class_blocks (numeral k) h bp =
     (if bp = 0 then []
      else bp # (case next_listbp h bp of None \<Rightarrow> []
                 | Some nxt \<Rightarrow> class_blocks (pred_numeral k) h nxt))"
  by (simp add: numeral_eq_Suc)

text \<open>
  C8. For every request of a non-zero number of bytes, with \<open>asize\<close> the block size
  computed from it: \<^verbatim>\<open>malloc\<close> places the request in the first block of size at least
  \<open>asize\<close> among the first 32 blocks of the list of class \<open>classOf(asize)\<close>; if there is
  none, in the head of the first non-empty class with a greater index; and only if there
  is none either does it ask for arena growth, by \<open>max(asize, 4096)\<close> bytes, and place
  the request in what growth returns. (The headers and links of the scanned blocks are
  assumed to be readable.)
\<close>

theorem malloc_placement:
  assumes "nbytes \<noteq> 0" and "readable_class h (request_size nbytes)"
  shows "malloc h nbytes nb =
     (case placement_search h (request_size nbytes) of
        Some bp \<Rightarrow> place h bp (request_size nbytes) nb
      | None \<Rightarrow> do {
          (bp, h1) \<leftarrow> extend_heap h (max_sz (request_size nbytes) 4096);
          place h1 bp (request_size nbytes) nb
        })"
proof -
  define asize where "asize = request_size nbytes"
  define k where "k = search_seg_list asize"
  define hd where "hd = seg_list h ! k"
  define cand where "cand = find (fits h asize) (class_blocks 32 h hd)"
  define esc where "esc = find (\<lambda>i. seg_list h ! i \<noteq> 0) [Suc k ..< 14]"
  have asize: "(if nbytes \<le> 16 then 32 else align (nbytes + 16)) = asize"
    by (simp add: asize_def request_size_def)
  have k: "k \<noteq> 14" using search_seg_list_less [of asize] by (simp add: k_def)
  have scan: "scan_class 32 h hd asize = Some cand"
    unfolding cand_def using assms(2)
    by (intro scan_class_find) (simp add: readable_class_def k_def hd_def asize_def)
  have found: "(if k \<noteq> SEG_LIST_SIZE \<and> hd \<noteq> 0 then scan_class 32 h hd asize else Some None)
      = Some cand"
  proof (cases "hd = 0")
    case True
    then show ?thesis by (simp add: cand_def class_blocks_null)
  next
    case False
    then show ?thesis using k scan by simp
  qed
  have nc: "next_class (seg_list h) (Suc k) 0 =
      (case esc of Some i \<Rightarrow> seg_list h ! i | None \<Rightarrow> 0)"
    by (simp add: next_class_find esc_def)
  have ps: "placement_search h asize =
      (case cand of Some bp \<Rightarrow> Some bp
       | None \<Rightarrow> (case esc of Some i \<Rightarrow> Some (seg_list h ! i) | None \<Rightarrow> None))"
    by (simp add: placement_search_def cand_def esc_def k_def hd_def Let_def
        cong: option.case_cong)
  have m: "malloc h nbytes nb =
      (case cand of
         Some bp \<Rightarrow> do { (r, h') \<leftarrow> place h bp asize nb; Some (bp, h') }
       | None \<Rightarrow> do {
           (bp, h1) \<leftarrow> (let bp = next_class (seg_list h) (Suc k) 0
                        in if bp = 0 then extend_heap h (max_sz asize 4096) else Some (bp, h));
           place h1 bp asize nb })"
    using assms(1) found
    by (simp add: malloc_def asize k_def [symmetric] hd_def [symmetric] Let_def
        cong: if_cong option.case_cong)
  show ?thesis
  proof (cases cand)
    case (Some bp)
    then show ?thesis by (simp add: m ps place_keeps_bp asize_def [symmetric])
  next
    case None
    note c = this
    show ?thesis
    proof (cases esc)
      case None
      then show ?thesis using c by (simp add: m ps nc asize_def [symmetric])
    next
      case (Some i)
      then have "seg_list h ! i \<noteq> 0" unfolding esc_def by (rule find_nonzero)
      then show ?thesis using c Some by (simp add: m ps nc asize_def [symmetric])
    qed
  qed
qed

theorem malloc_placement_witness:
  "(4080 :: 64 word) \<noteq> 0 \<and> readable_class heap_after_init (request_size 4080) \<and>
   placement_search heap_after_init (request_size 4080) = Some 0x10020 \<and>
   malloc heap_after_init 4080 0 = place heap_after_init 0x10020 4096 0"
  using malloc_placement [of 4080 heap_after_init 0]
  by (simp add: heap_after_init_eq readable_class_def placement_search_def request_size_def
      fits_def class_blocks_numeral align_def get_size_def get_def in_store_def
      next_listbp_def next_freebp_def p_to_header_def search_seg_list_unat
      load_store_same load_store_aligned load_zero unat_numeral_small
      del: unat_bintrunc unsigned_numeral)

section \<open>Runs of the allocator on the concrete heaps\<close>

text \<open>
  Each run starts from the heap that \<^verbatim>\<open>mm_init\<close> builds: the prologue at 0x10008 and
  0x10010, one free block of 4096 bytes with payload address 0x10020, the epilogue header
  at 0x11018. The variables \<open>g\<close>, \<open>g1\<close>, ... stand for the undetermined value of
  \<^verbatim>\<open>next_block\<close> in calls that never read it.
\<close>

lemmas run = heap_after_init_eq small_heap_after_init_eq ev

text \<open>
  C1 on a concrete run. \<^verbatim>\<open>p = malloc(16); q = malloc(16); free(p)\<close>: the block of \<open>p\<close>
  lies between the prologue and the allocated block of \<open>q\<close>. After \<^verbatim>\<open>free(p)\<close> the
  allocated flag of its header and of its footer is still 1: \<^verbatim>\<open>free\<close> reads the whole
  header word with \<^verbatim>\<open>get\<close> and packs it with 0, which leaves bit 0 as it was.
\<close>

theorem free_keeps_allocated_flag:
  "do { (p, h1) \<leftarrow> malloc heap_after_init 16 g1;
        (q, h2) \<leftarrow> malloc h1 16 g2;
        h3 \<leftarrow> free h2 p;
        a \<leftarrow> get_alloc h3 (p_to_header p);
        ft \<leftarrow> p_to_footer h3 p;
        b \<leftarrow> get_alloc h3 ft;
        Some (p, q, a, b) } = Some (0x10020, 0x10040, 1, 1)"
  by (simp add: run cong: wc del: unat_bintrunc unsigned_numeral)

text \<open>
  C2 on a concrete run. The provider has no memory left after \<^verbatim>\<open>mm_init\<close>, and
  \<^verbatim>\<open>malloc(5000)\<close> finds no block in any class. \<^verbatim>\<open>extend_heap\<close> returns the null pointer
  and leaves the heap as it was, but \<^verbatim>\<open>malloc\<close> does not test the result: it calls
  \<^verbatim>\<open>place\<close> on the null pointer, whose first read, of the header word at address
  \<open>0 - 8\<close>, is a fault. \<^verbatim>\<open>malloc\<close> does not return.
\<close>

theorem malloc_faults_when_growth_fails:
  "placement_search small_heap_after_init (request_size 5000) = None \<and>
   extend_heap small_heap_after_init (max_sz (request_size 5000) 4096)
     = Some (0, small_heap_after_init) \<and>
   get small_heap_after_init (p_to_header 0) = None \<and>
   place small_heap_after_init 0 (request_size 5000) g = None \<and>
   malloc small_heap_after_init 5000 g = None"
  by (simp add: run placement_search_def request_size_def fits_def class_blocks_numeral
      upt_rec [of "numeral k" for k] upt_rec [of "Suc k" for k]
      cong: wc del: unat_bintrunc unsigned_numeral)

text \<open>
  C4 on a concrete run.
  \<^verbatim>\<open>a = malloc(48); b = malloc(16); free(a); free(b); c = malloc(16); free(c)\<close>.
  \<^verbatim>\<open>free(a)\<close> leaves the block of \<open>a\<close> flagged allocated (see C1), so \<^verbatim>\<open>free(b)\<close>
  merges \<open>b\<close> with the free block after it but not with \<open>a\<close>. \<^verbatim>\<open>malloc(16)\<close> then
  splits the block of \<open>a\<close>, and \<^verbatim>\<open>free(c)\<close> merges the two halves again. When
  \<^verbatim>\<open>free(c)\<close> returns, the block at \<open>c\<close> (header word 64: size 64, flag 0) is followed
  by the block at 0x10060 (header word 4032: size 4032, flag 0), and both are heads of
  free lists: two physically adjacent free blocks.
\<close>

theorem adjacent_free_blocks_after_free:
  "do { (a, h1) \<leftarrow> malloc heap_after_init 48 g1;
        (b, h2) \<leftarrow> malloc h1 16 g2;
        h3 \<leftarrow> free h2 a;
        h4 \<leftarrow> free h3 b;
        (c, h5) \<leftarrow> malloc h4 16 g3;
        h6 \<leftarrow> free h5 c;
        fc \<leftarrow> get h6 (p_to_header c);
        nx \<leftarrow> next_bp h6 c;
        fn \<leftarrow> get h6 (p_to_header nx);
        Some (a, b, c, fc, nx, fn, seg_list h6) }
   = Some (0x10020, 0x10060, 0x10020, 64, 0x10060, 4032,
           [0, 0, 0x10020, 0, 0, 0, 0, 0x10060, 0, 0, 0, 0, 0, 0])"
  by (simp add: run cong: wc del: unat_bintrunc unsigned_numeral)

text \<open>
  C5 on a concrete run. For a request of \<open>2 ^ 64 - 16\<close> bytes the sum
  \<^verbatim>\<open>size + HEADER_SIZE*2\<close> wraps to 0, so \<open>asize\<close> is 0 and \<^verbatim>\<open>place\<close> writes the
  footer of a block of size 0 at \<open>bp - 16\<close>, which is the footer of the prologue.
  Before the call the header and the footer of the prologue are both 17 (size 16,
  allocated); after it the header is 17 and the footer is 1 (size 0).
\<close>

theorem malloc_overflow_breaks_prologue_tags:
  "do { hd0 \<leftarrow> get heap_after_init (heap_list_ptr heap_after_init + 8);
        ft0 \<leftarrow> get heap_after_init (heap_list_ptr heap_after_init + 16);
        (p, h1) \<leftarrow> malloc heap_after_init (- 16) g;
        hd \<leftarrow> get h1 (heap_list_ptr h1 + 8);
        ft \<leftarrow> get h1 (heap_list_ptr h1 + 16);
        Some (hd0, ft0, p, hd, ft) } = Some (17, 17, 0x10020, 17, 1)"
  by (simp add: run cong: wc del: unat_bintrunc unsigned_numeral)

text \<open>
  C6 on a concrete run. After the request of \<open>2 ^ 64 - 16\<close> bytes of C5, \<^verbatim>\<open>place\<close> has
  put the address after the epilogue header, 0x11020, at the head of the list of class 8.
  The next \<^verbatim>\<open>malloc(16)\<close> returns it. The arena ends at 0x1101F, so the pointer does not
  lie in the arena (\<^verbatim>\<open>in_heap\<close> is false).
\<close>

theorem malloc_returns_pointer_past_arena:
  "do { (p, h1) \<leftarrow> malloc heap_after_init (- 16) g1;
        (q, h2) \<leftarrow> malloc h1 16 g2;
        Some (p, q, mem_heap_hi h2, in_heap h2 q) } = Some (0x10020, 0x11020, 0x1101F, False)"
  by (simp add: run in_heap_def mem_heap_hi_def mem_heap_lo_def
      cong: wc del: unat_bintrunc unsigned_numeral)

text \<open>
  C7 on a concrete run. \<^verbatim>\<open>a = malloc(16); b = malloc(16)\<close>, the caller stores two words
  in the 16 bytes of \<open>b\<close>, then \<^verbatim>\<open>free(a); realloc(b, n)\<close> with \<open>n = 2 ^ 64 - 16\<close>.
  As in C5, \<open>asize\<close> is 0: \<^verbatim>\<open>place\<close> hands out the block of \<open>a\<close> and inserts the
  block after it, which is the live block of \<open>b\<close>, into a free list, writing two null
  links over its payload before \<^verbatim>\<open>memmove\<close> copies it. \<^verbatim>\<open>realloc\<close> returns 0x10020,
  and the first 16 bytes there are 0, not the 16 bytes that \<open>b\<close> held
  (\<open>min(n, oldCapacity) = 16\<close>).
\<close>

theorem realloc_loses_payload:
  "do { (a, h1) \<leftarrow> malloc heap_after_init 16 g1;
        (b, h2) \<leftarrow> malloc h1 16 g2;
        h3 \<leftarrow> put h2 b 0x1111111111111111;
        h4 \<leftarrow> put h3 (b + 8) 0x2222222222222222;
        h5 \<leftarrow> free h4 a;
        osz \<leftarrow> get_size h5 (p_to_header b);
        old0 \<leftarrow> get h5 b;
        old1 \<leftarrow> get h5 (b + 8);
        (r, h6) \<leftarrow> realloc h5 b (- 16) g3;
        new0 \<leftarrow> get h6 r;
        new1 \<leftarrow> get h6 (r + 8);
        Some (b, osz, old0, old1, r, new0, new1) }
   = Some (0x10040, 32, 0x1111111111111111, 0x2222222222222222, 0x10020, 0, 0)"
  by (simp add: run cong: wc del: unat_bintrunc unsigned_numeral)

text \<open>
  C9 on a concrete run. \<^verbatim>\<open>a = malloc(16); b = malloc(16); c = malloc(16); free(b); free(c)\<close>:
  the block of \<open>b\<close> (size 32) is on the free list of class 1, and the block after it, at
  \<open>c\<close>, is free with size 4032 in its header and in its footer at 0x11010.
  \<^verbatim>\<open>place(b, 32)\<close> does not split (\<open>csize - asize = 0\<close>). Let its read of the
  uninitialised \<^verbatim>\<open>next_block\<close> yield \<open>c + 32\<close>, for instance because that is what the
  last call of \<^verbatim>\<open>place\<close> that split (in \<^verbatim>\<open>c = malloc(16)\<close>) left in the variable. The
  word before that address is the stale header (size 4000, free) of the block that
  \<^verbatim>\<open>free(c)\<close> merged away, so \<^verbatim>\<open>place\<close> copies it to 0x11010: the footer of the
  physically following block changes from 4032 to 4000.
\<close>

theorem place_without_split_writes_next_footer:
  "do { (a, h1) \<leftarrow> malloc heap_after_init 16 g1;
        (b, h2) \<leftarrow> malloc h1 16 g2;
        (c, h3) \<leftarrow> malloc h2 16 g3;
        h4 \<leftarrow> free h3 b;
        h5 \<leftarrow> free h4 c;
        csize \<leftarrow> get_size h5 (p_to_header b);
        nx \<leftarrow> next_bp h5 b;
        nh \<leftarrow> get h5 (p_to_header nx);
        ft \<leftarrow> p_to_footer h5 nx;
        w \<leftarrow> get h5 ft;
        (r, h6) \<leftarrow> place h5 b 32 (c + 32);
        w' \<leftarrow> get h6 ft;
        Some (b, c, seg_list h5 ! 1, csize, nx, nh, ft, w, r, w') }
   = Some (0x10040, 0x10060, 0x10040, 32, 0x10060, 4032, 0x11010, 4032, 0x10040, 4000)"
  by (simp add: run cong: wc del: unat_bintrunc unsigned_numeral)

end
